theory Spec2Isabelle
  imports Main
begin

section \<open>Python text\<close>

text \<open>
  A Python \<open>str\<close> is a sequence of Unicode code points. A code point is modelled as a
  natural number, so that the non-ASCII text the script prints and the Unicode whitespace
  that \<open>str.strip()\<close> removes are what they are in Python. \<open>str\<close> turns an ASCII literal
  into such a sequence.
\<close>

type_synonym pystr = "nat list"

definition str :: "string \<Rightarrow> pystr" where
  "str s = map of_char s"

text \<open>\<open>s.startswith(p)\<close>.\<close>

definition startswith :: "pystr \<Rightarrow> pystr \<Rightarrow> bool" where
  "startswith s p = (take (length p) s = p)"

text \<open>\<open>p in s\<close> for two strings: \<open>p\<close> occurs in \<open>s\<close> as a contiguous block.\<close>

fun contains :: "pystr \<Rightarrow> pystr \<Rightarrow> bool" where
  "contains [] p = (p = [])"
| "contains (c # s) p = (startswith (c # s) p \<or> contains s p)"

text \<open>
  \<open>s.split(sep)\<close> for a separator of one character, the only kind the script uses:
  the pieces between the occurrences of the separator, one more piece than occurrences.
\<close>

fun split_on :: "nat \<Rightarrow> pystr \<Rightarrow> pystr list" where
  "split_on sep [] = [[]]"
| "split_on sep (c # s) =
     (if c = sep then [] # split_on sep s
      else (case split_on sep s of
              [] \<Rightarrow> [[c]]
            | piece # pieces \<Rightarrow> (c # piece) # pieces))"

text \<open>
  The characters \<open>str.strip()\<close> removes when called without an argument: those for which
  CPython's \<open>str.isspace\<close> holds.
\<close>

definition isspace :: "nat \<Rightarrow> bool" where
  "isspace c =
     ((0x09 \<le> c \<and> c \<le> 0x0D) \<or> (0x1C \<le> c \<and> c \<le> 0x20) \<or> c = 0x85 \<or> c = 0xA0
      \<or> c = 0x1680 \<or> (0x2000 \<le> c \<and> c \<le> 0x200A) \<or> c = 0x2028 \<or> c = 0x2029
      \<or> c = 0x202F \<or> c = 0x205F \<or> c = 0x3000)"

definition strip_with :: "(nat \<Rightarrow> bool) \<Rightarrow> pystr \<Rightarrow> pystr" where
  "strip_with P s = rev (dropWhile P (rev (dropWhile P s)))"

text \<open>\<open>s.strip()\<close> and \<open>s.strip(chars)\<close>.\<close>

definition strip :: "pystr \<Rightarrow> pystr" where
  "strip s = strip_with isspace s"

definition strip_chars :: "pystr \<Rightarrow> pystr \<Rightarrow> pystr" where
  "strip_chars chars s = strip_with (\<lambda>c. c \<in> set chars) s"

text \<open>
  The lines a text file yields when iterated: the text is cut after every line feed and
  each line keeps its line feed; a last line without one is yielded as it is.
\<close>

fun file_lines :: "pystr \<Rightarrow> pystr list" where
  "file_lines [] = []"
| "file_lines (c # s) =
     (if c = 0x0A then [c] # file_lines s
      else (case file_lines s of
              [] \<Rightarrow> [[c]]
            | l # ls \<Rightarrow> (c # l) # ls))"

section \<open>The file system and the exceptions a check can raise\<close>

text \<open>
  The script reads the file system relative to the working directory and never writes.
  A path is absent, or it is one of three kinds of node:
  \<^item> \<open>File content\<close>: a text file whose whole contents decode as UTF-8;
  \<^item> \<open>Broken content e\<close>: a file that opens but whose reading fails part-way (bytes that
    are not UTF-8 after a beginning that decodes, or a read error): reading it in one
    piece with \<open>f.read()\<close> raises \<open>e\<close>, and reading it line by line delivers the lines
    of \<open>content\<close>, which may be none, and raises \<open>e\<close> when the next line is asked for;
  \<^item> \<open>Unreadable e\<close>: the path exists but \<open>open\<close> raises \<open>e\<close> (a directory, a file
    without read permission).
  The contents of a file are the text as Python delivers it in text mode, after the
  translation of line endings to a line feed. The file system does not change while the
  script runs, and standard output accepts every character.
\<close>

datatype exn =
    IndexError
  | OSError pystr
  | UnicodeDecodeError pystr

fun exn_str :: "exn \<Rightarrow> pystr" where
  "exn_str IndexError = str ''list index out of range''"
| "exn_str (OSError msg) = msg"
| "exn_str (UnicodeDecodeError msg) = msg"

datatype node = File pystr | Broken pystr exn | Unreadable exn

type_synonym fs = "pystr \<rightharpoonup> node"

type_synonym out = "pystr list"

text \<open>\<open>os.path.exists(p)\<close> and \<open>Path(p).exists()\<close>.\<close>

definition exists :: "fs \<Rightarrow> pystr \<Rightarrow> bool" where
  "exists fs p = (fs p \<noteq> None)"

text \<open>\<open>open(p, "r", encoding="utf-8")\<close> followed by \<open>f.read()\<close>, the whole file at once.\<close>

definition open_read :: "fs \<Rightarrow> pystr \<Rightarrow> exn + pystr" where
  "open_read fs p =
     (case fs p of
        None \<Rightarrow> Inl (OSError (str ''[Errno 2] No such file or directory: '' @ [0x27] @ p @ [0x27]))
      | Some (File content) \<Rightarrow> Inr content
      | Some (Broken content e) \<Rightarrow> Inl e
      | Some (Unreadable e) \<Rightarrow> Inl e)"

text \<open>
  \<open>open(p, "r", encoding="utf-8")\<close> followed by \<open>for line in f\<close>: the lines the file
  delivers one by one, and the exception that ends the iteration when the reading fails
  after them. A loop that leaves the iteration before the failure never meets it.
\<close>

definition open_lines :: "fs \<Rightarrow> pystr \<Rightarrow> exn + (pystr list \<times> exn option)" where
  "open_lines fs p =
     (case fs p of
        None \<Rightarrow> Inl (OSError (str ''[Errno 2] No such file or directory: '' @ [0x27] @ p @ [0x27]))
      | Some (File content) \<Rightarrow> Inr (file_lines content, None)
      | Some (Broken content e) \<Rightarrow> Inr (file_lines content, Some e)
      | Some (Unreadable e) \<Rightarrow> Inl e)"

section \<open>The checks\<close>

text \<open>
  Every function returns what it printed, one entry for each call of \<open>print\<close>, together
  with its result. A check returns a boolean or raises: its result is \<open>Inr b\<close> or
  \<open>Inl e\<close>.
\<close>

definition check_file_exists :: "fs \<Rightarrow> pystr \<Rightarrow> out \<times> bool" where
  "check_file_exists fs filepath =
     (if exists fs filepath
      then ([str ''[OK] '' @ filepath @ str '' '' @ [0x5B58, 0x5728]], True)
      else ([str ''[FAIL] '' @ filepath @ str '' '' @ [0x4E0D, 0x5B58, 0x5728]], False))"

text \<open>
  The loop \<open>for file in required_files\<close> of both file-list checks, with the flag
  \<open>all_exist\<close> as its state.
\<close>

fun required_loop :: "fs \<Rightarrow> pystr list \<Rightarrow> bool \<Rightarrow> out \<times> bool" where
  "required_loop fs [] all_exist = ([], all_exist)"
| "required_loop fs (file # files) all_exist =
     (let (printed, found) = check_file_exists fs file;
          (printed', all_exist') = required_loop fs files (if \<not> found then False else all_exist)
      in (printed @ printed', all_exist'))"

definition package_files :: "pystr list" where
  "package_files =
     [str ''swagger_sdk/__init__.py'',
      str ''swagger_sdk/builder.py'',
      str ''swagger_sdk/models.py'',
      str ''swagger_sdk/enums.py'']"

definition check_package_structure :: "fs \<Rightarrow> out \<times> (exn + bool)" where
  "check_package_structure fs =
     (let (printed, all_exist) = required_loop fs package_files True
      in (([0x0A, 0x68C0, 0x67E5, 0x5305, 0x7ED3, 0x6784] @ str ''...'') # printed,
          Inr all_exist))"

definition build_files :: "pystr list" where
  "build_files =
     [str ''pyproject.toml'',
      str ''setup.py'',
      str ''MANIFEST.in'',
      str ''LICENSE'',
      str ''README.md'']"

definition check_build_files :: "fs \<Rightarrow> out \<times> (exn + bool)" where
  "check_build_files fs =
     (let (printed, all_exist) = required_loop fs build_files True
      in (([0x0A, 0x68C0, 0x67E5, 0x6784, 0x5EFA, 0x6587, 0x4EF6] @ str ''...'') # printed,
          Inr all_exist))"

text \<open>
  The value of a version line: \<open>line.split("=")[1].strip().strip('"').strip("'")\<close>,
  where \<open>unquoted\<close> is the chain of the three calls of \<open>strip\<close>. Indexing the pieces
  at 1 raises \<open>IndexError\<close> when the line has no \<open>=\<close>.
\<close>

definition unquoted :: "pystr \<Rightarrow> pystr" where
  "unquoted piece = strip_chars [0x27] (strip_chars [0x22] (strip piece))"

definition extract_value :: "pystr \<Rightarrow> exn + pystr" where
  "extract_value line =
     (case split_on 0x3D line of
        _ # piece # _ \<Rightarrow> Inr (unquoted piece)
      | _ \<Rightarrow> Inl IndexError)"

text \<open>
  The loop \<open>for line in f\<close> of the version check, over the lines the file delivers and
  the failure that may follow them: it stops with \<open>break\<close> at the first line that starts
  with \<open>__version__\<close>, without reading further; when the lines run out,
  \<open>version_in_init\<close> is still \<open>None\<close>, unless the reading fails there and the exception
  leaves the loop.
\<close>

fun version_loop :: "pystr list \<Rightarrow> exn option \<Rightarrow> exn + pystr option" where
  "version_loop [] failure = (case failure of None \<Rightarrow> Inr None | Some e \<Rightarrow> Inl e)"
| "version_loop (line # rest) failure =
     (if startswith line (str ''__version__'')
      then (case extract_value line of
              Inl e \<Rightarrow> Inl e
            | Inr v \<Rightarrow> Inr (Some v))
      else version_loop rest failure)"

definition init_path :: pystr where
  "init_path = str ''swagger_sdk/__init__.py''"

definition pyproject :: pystr where
  "pyproject = str ''pyproject.toml''"

definition setup_py :: pystr where
  "setup_py = str ''setup.py''"

text \<open>
  The text \<open>version = "{version_in_init}"\<close> looked for in \<open>pyproject.toml\<close>. In the
  check, \<open>not version_in_init\<close> holds for \<open>None\<close> and for the empty string.
\<close>

definition version_pattern :: "pystr \<Rightarrow> pystr" where
  "version_pattern version_in_init = str ''version = '' @ [0x22] @ version_in_init @ [0x22]"

definition check_version_consistency :: "fs \<Rightarrow> out \<times> (exn + bool)" where
  "check_version_consistency fs =
     (let header = [[0x0A, 0x68C0, 0x67E5, 0x7248, 0x672C, 0x53F7, 0x4E00, 0x81F4, 0x6027] @ str ''...'']
      in
      if \<not> exists fs init_path
      then (header @ [[0x2717] @ str '' swagger_sdk/__init__.py '' @ [0x4E0D, 0x5B58, 0x5728]],
            Inr False)
      else
        (case open_lines fs init_path of
           Inl e \<Rightarrow> (header, Inl e)
         | Inr (lines, failure) \<Rightarrow>
             (case version_loop lines failure of
                Inl e \<Rightarrow> (header, Inl e)
              | Inr version \<Rightarrow>
                  (case (if version = Some [] then None else version) of
                     None \<Rightarrow>
                       (header @ [str ''[FAIL] '' @ [0x5728] @ str '' __init__.py ''
                                  @ [0x4E2D, 0x672A, 0x627E, 0x5230] @ str '' __version__''],
                        Inr False)
                   | Some version_in_init \<Rightarrow>
                       (let printed = header @ [str ''[OK] __init__.py '' @ [0x7248, 0x672C]
                                                @ str '': '' @ version_in_init]
                        in
                        if exists fs pyproject
                        then
                          (case open_read fs pyproject of
                             Inl e \<Rightarrow> (printed, Inl e)
                           | Inr content \<Rightarrow>
                               (if contains content (version_pattern version_in_init)
                                then (printed @ [str ''[OK] pyproject.toml ''
                                                 @ [0x7248, 0x672C, 0x4E00, 0x81F4]
                                                 @ str '': '' @ version_in_init],
                                      Inr True)
                                else (printed @ [str ''[FAIL] pyproject.toml ''
                                                 @ [0x7248, 0x672C, 0x4E0D, 0x4E00, 0x81F4]],
                                      Inr False)))
                        else (printed, Inr True))))))"

text \<open>
  The two scans of the metadata check. Each yields the warnings it appends, or the
  exception of the read.
\<close>

definition scan_pyproject :: "fs \<Rightarrow> exn + out" where
  "scan_pyproject fs =
     (if exists fs pyproject
      then
        (case open_read fs pyproject of
           Inl e \<Rightarrow> Inl e
         | Inr content \<Rightarrow>
             Inr ((if contains content (str ''your.email@example.com'')
                   then [str ''[WARN] pyproject.toml ''
                         @ [0x4E2D, 0x7684, 0x4F5C, 0x8005, 0x90AE, 0x7BB1, 0x9700, 0x8981, 0x66F4, 0x65B0]]
                   else [])
                  @ (if contains content (str ''yourusername'')
                     then [str ''[WARN] pyproject.toml '' @ [0x4E2D, 0x7684] @ str '' GitHub ''
                           @ [0x7528, 0x6237, 0x540D, 0x9700, 0x8981, 0x66F4, 0x65B0]]
                     else [])))
      else Inr [])"

definition scan_setup :: "fs \<Rightarrow> exn + out" where
  "scan_setup fs =
     (if exists fs setup_py
      then
        (case open_read fs setup_py of
           Inl e \<Rightarrow> Inl e
         | Inr content \<Rightarrow>
             Inr (if contains content (str ''Your Name'')
                  then [str ''[WARN] setup.py ''
                        @ [0x4E2D, 0x7684, 0x4F5C, 0x8005, 0x4FE1, 0x606F, 0x9700, 0x8981, 0x66F4, 0x65B0]]
                  else []))
      else Inr [])"

definition check_metadata :: "fs \<Rightarrow> out \<times> (exn + bool)" where
  "check_metadata fs =
     (let header = [[0x0A, 0x68C0, 0x67E5, 0x5143, 0x6570, 0x636E] @ str ''...'']
      in
      case scan_pyproject fs of
        Inl e \<Rightarrow> (header, Inl e)
      | Inr warnings1 \<Rightarrow>
          (case scan_setup fs of
             Inl e \<Rightarrow> (header, Inl e)
           | Inr warnings2 \<Rightarrow>
               (let warnings = warnings1 @ warnings2
                in
                if warnings \<noteq> []
                then (header @ warnings, Inr False)
                else (header @ [str ''[OK] '' @ [0x5143, 0x6570, 0x636E, 0x68C0, 0x67E5, 0x901A, 0x8FC7]],
                      Inr True))))"

section \<open>The runner\<close>

type_synonym check = "fs \<Rightarrow> out \<times> (exn + bool)"

definition checks :: "(pystr \<times> check) list" where
  "checks =
     [([0x5305, 0x7ED3, 0x6784], check_package_structure),
      ([0x7248, 0x672C, 0x4E00, 0x81F4, 0x6027], check_version_consistency),
      ([0x6784, 0x5EFA, 0x6587, 0x4EF6], check_build_files),
      ([0x5143, 0x6570, 0x636E], check_metadata)]"

text \<open>
  One pass of the body of \<open>for name, check_func in checks\<close>: the check is called; its
  boolean is recorded, or, when it raises, the handler of \<open>except Exception\<close> prints
  \<open>error_line\<close> with the message and records \<open>False\<close>. Every exception a check can
  raise here derives from \<open>Exception\<close>.
\<close>

definition error_line :: "pystr \<Rightarrow> exn \<Rightarrow> pystr" where
  "error_line name e =
     str ''[FAIL] '' @ name @ str '' '' @ [0x68C0, 0x67E5, 0x51FA, 0x9519] @ str '': '' @ exn_str e"

definition run_check :: "fs \<Rightarrow> pystr \<times> check \<Rightarrow> out \<times> (pystr \<times> bool)" where
  "run_check fs c =
     (let (name, check_func) = c;
          (printed, r) = check_func fs
      in case r of
           Inr result \<Rightarrow> (printed, (name, result))
         | Inl e \<Rightarrow> (printed @ [error_line name e], (name, False)))"

text \<open>The loop over the checks: what was printed, and the list \<open>results\<close>.\<close>

fun run_checks :: "fs \<Rightarrow> (pystr \<times> check) list \<Rightarrow> out \<times> (pystr \<times> bool) list" where
  "run_checks fs [] = ([], [])"
| "run_checks fs (c # rest) =
     (let (printed, recorded) = run_check fs c;
          (printed', results) = run_checks fs rest
      in (printed @ printed', recorded # results))"

text \<open>
  The loop \<open>for name, result in results\<close> of the report, with the flag \<open>all_passed\<close>;
  \<open>report_line\<close> is the line it prints for one result.
\<close>

definition report_line :: "pystr \<times> bool \<Rightarrow> pystr" where
  "report_line r =
     (let (name, result) = r;
          status = (if result then str ''[OK] '' @ [0x901A, 0x8FC7]
                    else str ''[FAIL] '' @ [0x5931, 0x8D25])
      in name @ str '': '' @ status)"

fun report_loop :: "(pystr \<times> bool) list \<Rightarrow> bool \<Rightarrow> out \<times> bool" where
  "report_loop [] all_passed = ([], all_passed)"
| "report_loop ((name, result) # rest) all_passed =
     (let (printed, all_passed') = report_loop rest (if \<not> result then False else all_passed)
      in (report_line (name, result) # printed, all_passed'))"

definition banner :: out where
  "banner =
     [replicate 50 0x3D,
      str ''swagger-sdk '' @ [0x53D1, 0x5E03, 0x524D, 0x68C0, 0x67E5],
      replicate 50 0x3D]"

definition summary_header :: out where
  "summary_header =
     [[0x0A] @ replicate 50 0x3D,
      [0x68C0, 0x67E5, 0x7ED3, 0x679C, 0x6C47, 0x603B] @ str '':'',
      replicate 50 0x3D]"

definition verdict :: "bool \<Rightarrow> out" where
  "verdict all_passed =
     ([0x0A] @ replicate 50 0x3D) #
     (if all_passed
      then [str ''[OK] '' @ [0x6240, 0x6709, 0x68C0, 0x67E5, 0x901A, 0x8FC7, 0xFF01, 0x53EF, 0x4EE5,
                             0x5F00, 0x59CB, 0x6784, 0x5EFA, 0x548C, 0x53D1, 0x5E03, 0x3002],
            [0x0A, 0x4E0B, 0x4E00, 0x6B65] @ str '':'',
            str ''1. '' @ [0x66F4, 0x65B0] @ str '' pyproject.toml '' @ [0x548C] @ str '' setup.py ''
              @ [0x4E2D, 0x7684, 0x4F5C, 0x8005, 0x548C] @ str '' URL '' @ [0x4FE1, 0x606F],
            str ''2. '' @ [0x8FD0, 0x884C] @ str '': python -m build'',
            str ''3. '' @ [0x8FD0, 0x884C] @ str '': twine check dist/*'',
            str ''4. '' @ [0x8FD0, 0x884C] @ str '': twine upload dist/*'']
      else [str ''[FAIL] '' @ [0x90E8, 0x5206, 0x68C0, 0x67E5, 0x672A, 0x901A, 0x8FC7, 0xFF0C, 0x8BF7,
                               0x4FEE, 0x590D, 0x540E, 0x91CD, 0x8BD5, 0x3002]])"

text \<open>\<open>main\<close>: everything printed, and the exit code it returns to \<open>sys.exit\<close>.\<close>

definition main :: "fs \<Rightarrow> out \<times> int" where
  "main fs =
     (let (printed, results) = run_checks fs checks;
          (report, all_passed) = report_loop results True
      in (banner @ printed @ summary_header @ report @ verdict all_passed,
          if all_passed then 0 else 1))"

section \<open>The statements the checks are measured against\<close>

text \<open>
  A check has failed when it returned false or raised.
\<close>

definition failed :: "out \<times> (exn + bool) \<Rightarrow> bool" where
  "failed r = (case snd r of Inl e \<Rightarrow> True | Inr result \<Rightarrow> \<not> result)"



text \<open>
  The value of an assignment line as the specification words it: the text after the
  \<open>=\<close>, minus surrounding whitespace and quotes.
\<close>

definition spec_value :: "pystr \<Rightarrow> pystr" where
  "spec_value line = unquoted (drop 1 (dropWhile (\<lambda>c. c \<noteq> 0x3D) line))"

text \<open>
  \<open>in_file fs p s\<close>: the path \<open>p\<close> is a readable file whose contents contain \<open>s\<close>.
  The placeholder check as the specification words it: one of the three placeholders is
  present in either of the two scanned files.
\<close>

definition in_file :: "fs \<Rightarrow> pystr \<Rightarrow> pystr \<Rightarrow> bool" where
  "in_file fs p s = (case fs p of Some (File content) \<Rightarrow> contains content s | _ \<Rightarrow> False)"

definition spec_placeholders :: "pystr list" where
  "spec_placeholders = [str ''your.email@example.com'', str ''yourusername'', str ''Your Name'']"

definition spec_placeholder_present :: "fs \<Rightarrow> bool" where
  "spec_placeholder_present fs =
     list_ex (\<lambda>s. in_file fs pyproject s \<or> in_file fs setup_py s) spec_placeholders"

section \<open>Sample file systems\<close>

definition init_text :: pystr where
  "init_text = [0x22, 0x22, 0x22] @ str ''Swagger SDK'' @ [0x22, 0x22, 0x22, 0x0A]
               @ str ''__version__ = '' @ [0x22] @ str ''1.0.0'' @ [0x22, 0x0A]"

text \<open>Only the package's \<open>__init__.py\<close> exists, with version 1.0.0.\<close>

definition fs_init_only :: fs where
  "fs_init_only = [init_path \<mapsto> File init_text]"






text \<open>The version line assigns the empty string, and \<open>pyproject.toml\<close> does so too.\<close>

definition empty_version_text :: pystr where
  "empty_version_text = str ''__version__ = '' @ [0x22, 0x22, 0x0A]"

definition fs_empty_version :: fs where
  "fs_empty_version =
     [init_path \<mapsto> File empty_version_text,
      pyproject \<mapsto> File (str ''version = '' @ [0x22, 0x22, 0x0A])]"

text \<open>A version line whose value contains a second \<open>=\<close>.\<close>

definition eq_line :: pystr where
  "eq_line = str ''__version__ = '' @ [0x22] @ str ''1=2'' @ [0x22, 0x0A]"

definition fs_eq :: fs where
  "fs_eq =
     [init_path \<mapsto> File eq_line,
      pyproject \<mapsto> File (str ''version = '' @ [0x22] @ str ''1=2'' @ [0x22, 0x0A])]"

text \<open>The same version line, against a \<open>pyproject.toml\<close> with another version.\<close>

definition fs_eq_other :: fs where
  "fs_eq_other =
     [init_path \<mapsto> File eq_line,
      pyproject \<mapsto> File (str ''version = '' @ [0x22] @ str ''1'' @ [0x22, 0x0A])]"

text \<open>
  A release ready to build: every required file is present, both metadata files carry
  version 1.0.0 and no placeholder is left.
\<close>

definition fs_release :: fs where
  "fs_release =
     [init_path \<mapsto> File init_text,
      str ''swagger_sdk/builder.py'' \<mapsto> File [],
      str ''swagger_sdk/models.py'' \<mapsto> File [],
      str ''swagger_sdk/enums.py'' \<mapsto> File [],
      pyproject \<mapsto> File (str ''version = '' @ [0x22] @ str ''1.0.0'' @ [0x22, 0x0A]),
      setup_py \<mapsto> File (str ''setup()'' @ [0x0A]),
      str ''MANIFEST.in'' \<mapsto> File [],
      str ''LICENSE'' \<mapsto> File [],
      str ''README.md'' \<mapsto> File []]"

text \<open>Nothing but \<open>swagger_sdk/__init__.py\<close> exists, and it is a directory.\<close>

definition is_a_directory :: exn where
  "is_a_directory = OSError (str ''[Errno 21] Is a directory: '' @ [0x27] @ init_path @ [0x27])"

definition fs_init_dir :: fs where
  "fs_init_dir = [init_path \<mapsto> Unreadable is_a_directory]"

text \<open>The example author name is left in \<open>pyproject.toml\<close>; there is no \<open>setup.py\<close>.\<close>

definition fs_name_in_pyproject :: fs where
  "fs_name_in_pyproject =
     [pyproject \<mapsto> File (str ''name = '' @ [0x22] @ str ''Your Name'' @ [0x22, 0x0A])]"

text \<open>The example email is left in \<open>pyproject.toml\<close>.\<close>

definition fs_example_email :: fs where
  "fs_example_email =
     [pyproject \<mapsto> File (str ''email = '' @ [0x22] @ str ''your.email@example.com'' @ [0x22, 0x0A]),
      setup_py \<mapsto> File (str ''setup()'' @ [0x0A])]"

section \<open>Facts about the text operations\<close>

text \<open>The definitions that evaluate the text operations and the paths on sample inputs.\<close>

lemmas text_defs =
  str_def startswith_def extract_value_def unquoted_def strip_def strip_chars_def
  strip_with_def isspace_def version_pattern_def

lemmas path_defs = init_path_def pyproject_def setup_py_def

lemma startswith_iff: "startswith s p \<longleftrightarrow> (\<exists>post. s = p @ post)"
proof
  assume "startswith s p"
  then have "s = p @ drop (length p) s"
    by (metis append_take_drop_id startswith_def)
  then show "\<exists>post. s = p @ post" ..
next
  assume "\<exists>post. s = p @ post"
  then show "startswith s p" by (auto simp: startswith_def)
qed

lemma contains_iff: "contains s p \<longleftrightarrow> (\<exists>pre post. s = pre @ p @ post)"
proof (induction s)
  case Nil
  show ?case by auto
next
  case (Cons c s)
  show ?case
  proof
    assume "contains (c # s) p"
    then consider "startswith (c # s) p" | "contains s p" by auto
    then show "\<exists>pre post. c # s = pre @ p @ post"
    proof cases
      case 1
      then obtain post where "c # s = p @ post" by (auto simp: startswith_iff)
      then have "c # s = [] @ p @ post" by simp
      then show ?thesis by blast
    next
      case 2
      then obtain pre post where "s = pre @ p @ post" using Cons.IH by blast
      then have "c # s = (c # pre) @ p @ post" by simp
      then show ?thesis by blast
    qed
  next
    assume "\<exists>pre post. c # s = pre @ p @ post"
    then obtain pre post where eq: "c # s = pre @ p @ post" by blast
    show "contains (c # s) p"
    proof (cases pre)
      case Nil
      with eq have "startswith (c # s) p" by (auto simp: startswith_iff)
      then show ?thesis by simp
    next
      case (Cons a pre')
      with eq have "s = pre' @ p @ post" by simp
      then have "contains s p" using Cons.IH by blast
      then show ?thesis by simp
    qed
  qed
qed

lemma split_on_no_sep: "sep \<notin> set s \<Longrightarrow> split_on sep s = [s]"
  by (induction s) auto

lemma split_on_first: "sep \<notin> set key \<Longrightarrow> split_on sep (key @ sep # s) = key # split_on sep s"
  by (induction key) auto

lemma split_on_not_Nil: "split_on sep s \<noteq> []"
  by (induction s) (auto split: list.splits)

lemma split_on_value:
  assumes "sep \<notin> set v" and "rest = [] \<or> hd rest = sep"
  shows "\<exists>more. split_on sep (v @ rest) = v # more"
proof (cases rest)
  case Nil
  then show ?thesis using assms by (simp add: split_on_no_sep)
next
  case (Cons r rs)
  with assms have "r = sep" by simp
  with Cons show ?thesis using assms(1) by (simp add: split_on_first)
qed

lemma extract_value_assignment:
  assumes "0x3D \<notin> set key" and "0x3D \<notin> set v" and "rest = [] \<or> hd rest = 0x3D"
  shows "extract_value (key @ 0x3D # v @ rest) = Inr (unquoted v)"
proof -
  obtain more where "split_on 0x3D (v @ rest) = v # more"
    using split_on_value [OF assms(2,3)] by blast
  then have "split_on 0x3D (key @ 0x3D # v @ rest) = key # v # more"
    using assms(1) by (simp add: split_on_first)
  then show ?thesis by (simp add: extract_value_def)
qed

lemma extract_value_no_eq: "0x3D \<notin> set line \<Longrightarrow> extract_value line = Inl IndexError"
  by (simp add: extract_value_def split_on_no_sep)


lemma version_loop_None_iff:
  "version_loop ls failure = Inr None
   \<longleftrightarrow> (\<forall>l\<in>set ls. \<not> startswith l (str ''__version__'')) \<and> failure = None"
  by (induction ls) (auto split: sum.splits option.splits)

text \<open>A version that the loop finds is found before the reading can fail.\<close>

lemma version_loop_found_early:
  "version_loop ls failure = Inr (Some v) \<Longrightarrow> version_loop ls failure' = Inr (Some v)"
  by (induction ls) (auto split: sum.splits option.splits if_splits)



section \<open>Properties of the file-list checks\<close>

lemma check_file_exists_snd: "snd (check_file_exists fs p) = exists fs p"
  by (simp add: check_file_exists_def)

lemma required_loop_result:
  "snd (required_loop fs files all_exist) = (all_exist \<and> list_all (exists fs) files)"
proof (induction files arbitrary: all_exist)
  case Nil
  show ?case by simp
next
  case (Cons p ps)
  have "snd (required_loop fs (p # ps) all_exist)
        = snd (required_loop fs ps (if \<not> snd (check_file_exists fs p) then False else all_exist))"
    by (simp add: split_beta)
  also have "\<dots> = ((if \<not> exists fs p then False else all_exist) \<and> list_all (exists fs) ps)"
    by (simp only: Cons.IH check_file_exists_snd)
  also have "\<dots> = (all_exist \<and> list_all (exists fs) (p # ps))"
    by auto
  finally show ?case .
qed

text \<open>
  C5. Each of the two file-list checks, the package-structure check and the build-files
  check, returns true exactly when every path of its fixed list of required files exists
  in the file system it is run on; neither of them raises.
\<close>

theorem file_list_checks_iff_all_exist:
  "snd (check_package_structure fs) = Inr (list_all (exists fs) package_files)
   \<and> snd (check_build_files fs) = Inr (list_all (exists fs) build_files)"
proof
  show "snd (check_package_structure fs) = Inr (list_all (exists fs) package_files)"
    using required_loop_result [of fs package_files True]
    by (simp add: check_package_structure_def split_beta)
  show "snd (check_build_files fs) = Inr (list_all (exists fs) build_files)"
    using required_loop_result [of fs build_files True]
    by (simp add: check_build_files_def split_beta)
qed

theorem file_list_checks_iff_all_exist_witness:
  "snd (check_package_structure fs_release) = Inr True
   \<and> snd (check_build_files fs_release) = Inr True
   \<and> snd (check_package_structure fs_init_only) = Inr False"
  using file_list_checks_iff_all_exist [of fs_release] file_list_checks_iff_all_exist [of fs_init_only]
  by (simp add: package_files_def build_files_def exists_def fs_release_def fs_init_only_def
      path_defs str_def)

section \<open>Properties of the version check\<close>

lemma open_lines_exists: "open_lines fs p = Inr r \<Longrightarrow> exists fs p"
  by (auto simp: open_lines_def exists_def split: option.splits)


lemma version_result_unopened:
  "fs init_path \<noteq> None \<Longrightarrow> open_lines fs init_path = Inl e
   \<Longrightarrow> snd (check_version_consistency fs) = Inl e"
  by (simp add: check_version_consistency_def exists_def)












text \<open>
  C10. When the version line of the first metadata file assigns the empty string, the
  version check behaves as it does for a file with no version line: it prints the same
  lines and returns false, whatever the second metadata file contains.
\<close>

theorem empty_version_is_not_found:
  assumes "open_lines fs init_path = Inr (ls, failure)"
    and "version_loop ls failure = Inr (Some [])"
  shows "check_version_consistency fs = check_version_consistency (fs(init_path \<mapsto> File []))
         \<and> snd (check_version_consistency fs) = Inr False"
  using assms open_lines_exists [of fs init_path "(ls, failure)"]
  by (simp add: check_version_consistency_def exists_def open_lines_def)

theorem empty_version_is_not_found_witness:
  "open_lines fs_empty_version init_path = Inr (file_lines empty_version_text, None)
   \<and> version_loop (file_lines empty_version_text) None = Inr (Some [])
   \<and> in_file fs_empty_version pyproject (version_pattern [])
   \<and> snd (check_version_consistency fs_empty_version) = Inr False"
proof -
  have h1: "open_lines fs_empty_version init_path = Inr (file_lines empty_version_text, None)"
    by (simp add: open_lines_def fs_empty_version_def path_defs str_def)
  have h2: "version_loop (file_lines empty_version_text) None = Inr (Some [])"
    by (simp add: empty_version_text_def text_defs)
  have h3: "in_file fs_empty_version pyproject (version_pattern [])"
    by (simp add: in_file_def fs_empty_version_def text_defs)
  show ?thesis
    using empty_version_is_not_found
      [of fs_empty_version "file_lines empty_version_text" None, OF h1 h2] h1 h2 h3
    by blast
qed

text \<open>
  C6. The claim takes the text after the \<open>=\<close> of the version line, minus surrounding
  whitespace and quotes, as the version; \<open>line.split("=")[1]\<close> stops at the next
  \<open>=\<close> instead. For the line \<open>__version__ = "1=2"\<close> the value after the \<open>=\<close> is
  \<open>1=2\<close> and the loop extracts \<open>1\<close>: the check returns false against a second file
  that holds \<open>version = "1=2"\<close>, and true against one that holds \<open>version = "1"\<close> and
  not \<open>version = "1=2"\<close>.
\<close>

theorem version_value_second_eq:
  "spec_value eq_line = str ''1=2''
   \<and> version_loop (file_lines eq_line) None = Inr (Some (str ''1''))
   \<and> in_file fs_eq pyproject (version_pattern (str ''1=2''))
   \<and> snd (check_version_consistency fs_eq) = Inr False
   \<and> \<not> in_file fs_eq_other pyproject (version_pattern (str ''1=2''))
   \<and> snd (check_version_consistency fs_eq_other) = Inr True"
proof -
  have "spec_value eq_line = str ''1=2''"
    by (simp add: spec_value_def eq_line_def text_defs)
  moreover have "version_loop (file_lines eq_line) None = Inr (Some (str ''1''))"
    by (simp add: eq_line_def text_defs)
  moreover have "in_file fs_eq pyproject (version_pattern (str ''1=2''))"
    by (simp add: in_file_def fs_eq_def text_defs)
  moreover have "snd (check_version_consistency fs_eq) = Inr False"
    by (simp add: check_version_consistency_def fs_eq_def eq_line_def exists_def open_lines_def
        open_read_def text_defs path_defs)
  moreover have "\<not> in_file fs_eq_other pyproject (version_pattern (str ''1=2''))"
    by (simp add: in_file_def fs_eq_other_def text_defs)
  moreover have "snd (check_version_consistency fs_eq_other) = Inr True"
    by (simp add: check_version_consistency_def fs_eq_other_def eq_line_def exists_def
        open_lines_def open_read_def text_defs path_defs)
  ultimately show ?thesis by simp
qed

section \<open>Properties of the metadata check\<close>

lemma scan_pyproject_result:
  "scan_pyproject fs =
     (case fs pyproject of
        None \<Rightarrow> Inr []
      | Some (Unreadable e) \<Rightarrow> Inl e
      | Some (Broken content e) \<Rightarrow> Inl e
      | Some (File content) \<Rightarrow>
          Inr ((if contains content (str ''your.email@example.com'')
                then [str ''[WARN] pyproject.toml ''
                      @ [0x4E2D, 0x7684, 0x4F5C, 0x8005, 0x90AE, 0x7BB1, 0x9700, 0x8981, 0x66F4, 0x65B0]]
                else [])
               @ (if contains content (str ''yourusername'')
                  then [str ''[WARN] pyproject.toml '' @ [0x4E2D, 0x7684] @ str '' GitHub ''
                        @ [0x7528, 0x6237, 0x540D, 0x9700, 0x8981, 0x66F4, 0x65B0]]
                  else [])))"
  by (simp add: scan_pyproject_def exists_def open_read_def split: option.splits node.splits)

lemma scan_pyproject_warns:
  "scan_pyproject fs = Inr warnings \<Longrightarrow>
   warnings \<noteq> [] \<longleftrightarrow> in_file fs pyproject (str ''your.email@example.com'')
                    \<or> in_file fs pyproject (str ''yourusername'')"
  by (auto simp: scan_pyproject_result in_file_def split: option.splits node.splits if_splits)

lemma scan_pyproject_raises:
  "scan_pyproject fs = Inl e
   \<longleftrightarrow> fs pyproject = Some (Unreadable e) \<or> (\<exists>content. fs pyproject = Some (Broken content e))"
  by (auto simp: scan_pyproject_result split: option.splits node.splits)

lemma scan_setup_warns:
  "scan_setup fs = Inr warnings \<Longrightarrow>
   warnings \<noteq> [] \<longleftrightarrow> in_file fs setup_py (str ''Your Name'')"
  by (auto simp: scan_setup_def exists_def open_read_def in_file_def
      split: option.splits node.splits if_splits)

lemma scan_setup_raises:
  "scan_setup fs = Inl e
   \<longleftrightarrow> fs setup_py = Some (Unreadable e) \<or> (\<exists>content. fs setup_py = Some (Broken content e))"
  by (auto simp: scan_setup_def exists_def open_read_def split: option.splits node.splits)

text \<open>
  C7, as amended. When each of the two metadata files is absent or readable, the
  placeholder check returns false exactly when the example email or the example user
  name is present in \<open>pyproject.toml\<close>, or the example author name is present in
  \<open>setup.py\<close>, and returns true otherwise. When one of the two files exists and cannot
  be read, the check raises the exception of the read.
\<close>

theorem metadata_check_result:
  "snd (check_metadata fs) =
     (case fs pyproject of
        Some (Unreadable e) \<Rightarrow> Inl e
      | Some (Broken content e) \<Rightarrow> Inl e
      | _ \<Rightarrow>
         (case fs setup_py of
            Some (Unreadable e) \<Rightarrow> Inl e
          | Some (Broken content e) \<Rightarrow> Inl e
          | _ \<Rightarrow> Inr (\<not> (in_file fs pyproject (str ''your.email@example.com'')
                         \<or> in_file fs pyproject (str ''yourusername'')
                         \<or> in_file fs setup_py (str ''Your Name'')))))"
proof (cases "scan_pyproject fs")
  case (Inl e)
  then have "fs pyproject = Some (Unreadable e) \<or> (\<exists>content. fs pyproject = Some (Broken content e))"
    by (simp add: scan_pyproject_raises)
  with Inl show ?thesis by (auto simp: check_metadata_def)
next
  case w1: (Inr warnings1)
  then have p: "\<And>e. fs pyproject \<noteq> Some (Unreadable e)"
    and p': "\<And>content e. fs pyproject \<noteq> Some (Broken content e)"
    using scan_pyproject_raises [of fs] by auto
  show ?thesis
  proof (cases "scan_setup fs")
    case (Inl e)
    then have "fs setup_py = Some (Unreadable e) \<or> (\<exists>content. fs setup_py = Some (Broken content e))"
      by (simp add: scan_setup_raises)
    with Inl w1 p p' show ?thesis
      by (auto simp: check_metadata_def split: option.splits node.splits)
  next
    case w2: (Inr warnings2)
    then have s: "\<And>e. fs setup_py \<noteq> Some (Unreadable e)"
      and s': "\<And>content e. fs setup_py \<noteq> Some (Broken content e)"
      using scan_setup_raises [of fs] by auto
    have "snd (check_metadata fs) = Inr (\<not> (warnings1 \<noteq> [] \<or> warnings2 \<noteq> []))"
      using w1 w2 by (simp add: check_metadata_def Let_def)
    also have "\<dots> = Inr (\<not> (in_file fs pyproject (str ''your.email@example.com'')
                         \<or> in_file fs pyproject (str ''yourusername'')
                         \<or> in_file fs setup_py (str ''Your Name'')))"
      using scan_pyproject_warns [OF w1] scan_setup_warns [OF w2] by simp
    finally show ?thesis
      using p p' s s' by (simp split: option.splits node.splits)
  qed
qed

theorem metadata_check_result_witness:
  "in_file fs_example_email pyproject (str ''your.email@example.com'')
   \<and> snd (check_metadata fs_example_email) = Inr False
   \<and> snd (check_metadata fs_release) = Inr True"
proof -
  have e: "in_file fs_example_email pyproject (str ''your.email@example.com'')"
    by (simp add: in_file_def fs_example_email_def path_defs text_defs)
  have "snd (check_metadata fs_example_email) = Inr False"
    using metadata_check_result [of fs_example_email] e
    by (simp add: fs_example_email_def path_defs str_def)
  moreover have "snd (check_metadata fs_release) = Inr True"
    using metadata_check_result [of fs_release]
    by (simp add: fs_release_def in_file_def path_defs text_defs)
  ultimately show ?thesis using e by simp
qed

text \<open>
  C7 as the claim states it fails when a placeholder is in the file that is not scanned
  for it: with the example author name in \<open>pyproject.toml\<close> the check returns true.
\<close>

theorem metadata_check_result_counterexample:
  "spec_placeholder_present fs_name_in_pyproject
   \<and> snd (check_metadata fs_name_in_pyproject) = Inr True"
  by (simp add: spec_placeholder_present_def spec_placeholders_def in_file_def
      check_metadata_def scan_pyproject_def scan_setup_def exists_def open_read_def
      fs_name_in_pyproject_def path_defs text_defs)

text \<open>
  C9. When neither \<open>pyproject.toml\<close> nor \<open>setup.py\<close> exists, the placeholder check
  returns true, and prints its heading and the line that reports the pass, no warning.
\<close>

theorem metadata_check_passes_without_files:
  assumes "fs pyproject = None" and "fs setup_py = None"
  shows "check_metadata fs
         = ([[0x0A, 0x68C0, 0x67E5, 0x5143, 0x6570, 0x636E] @ str ''...'',
             str ''[OK] '' @ [0x5143, 0x6570, 0x636E, 0x68C0, 0x67E5, 0x901A, 0x8FC7]],
            Inr True)"
  using assms by (simp add: check_metadata_def scan_pyproject_def scan_setup_def exists_def)

theorem metadata_check_passes_without_files_witness:
  "fs_init_only pyproject = None \<and> fs_init_only setup_py = None
   \<and> snd (check_metadata fs_init_only) = Inr True"
proof -
  have h1: "fs_init_only pyproject = None"
    by (simp add: fs_init_only_def path_defs str_def)
  have h2: "fs_init_only setup_py = None"
    by (simp add: fs_init_only_def path_defs str_def)
  show ?thesis
    using metadata_check_passes_without_files [OF h1 h2] h1 h2 by simp
qed

section \<open>Properties of the runner\<close>

lemma run_check_raised:
  "snd (check_func fs) = Inl e
   \<Longrightarrow> run_check fs (name, check_func) = (fst (check_func fs) @ [error_line name e], (name, False))"
  by (simp add: run_check_def split_beta)

lemma run_check_returned:
  "snd (check_func fs) = Inr result
   \<Longrightarrow> run_check fs (name, check_func) = (fst (check_func fs), (name, result))"
  by (simp add: run_check_def split_beta)

lemma run_check_recorded:
  "snd (run_check fs (name, check_func)) = (name, \<not> failed (check_func fs))"
  by (cases "snd (check_func fs)") (simp_all add: run_check_raised run_check_returned failed_def)

lemma run_checks_printed:
  "fst (run_checks fs cs) = concat (map (\<lambda>c. fst (run_check fs c)) cs)"
  by (induction cs) (simp_all add: split_beta)

lemma run_checks_results:
  "snd (run_checks fs cs) = map (\<lambda>c. snd (run_check fs c)) cs"
  by (induction cs) (simp_all add: split_beta)

lemma run_checks_labels: "map fst (snd (run_checks fs cs)) = map fst cs"
proof -
  have "fst (snd (run_check fs c)) = fst c" for c
    by (cases c) (simp add: run_check_recorded)
  then show ?thesis by (simp add: run_checks_results)
qed

lemma run_checks_append:
  "run_checks fs (xs @ ys)
   = (fst (run_checks fs xs) @ fst (run_checks fs ys),
      snd (run_checks fs xs) @ snd (run_checks fs ys))"
  by (simp add: prod_eq_iff run_checks_printed run_checks_results)

lemma report_loop_printed: "fst (report_loop results all_passed) = map report_line results"
  by (induction results all_passed rule: report_loop.induct) (simp_all add: split_beta)

lemma report_loop_all_passed:
  "snd (report_loop results all_passed) = (all_passed \<and> list_all snd results)"
  by (induction results all_passed rule: report_loop.induct) (auto simp: split_beta)

lemma main_printed:
  "fst (main fs)
   = banner @ concat (map (\<lambda>c. fst (run_check fs c)) checks) @ summary_header
     @ map (\<lambda>c. report_line (snd (run_check fs c))) checks
     @ verdict (list_all (\<lambda>c. snd (snd (run_check fs c))) checks)"
  by (simp add: main_def split_beta run_checks_printed run_checks_results report_loop_printed
      report_loop_all_passed list_all_iff)

lemma main_exit:
  "snd (main fs) = (if list_all (\<lambda>c. snd (snd (run_check fs c))) checks then 0 else 1)"
  by (simp add: main_def split_beta run_checks_results report_loop_all_passed list_all_iff)

lemma release_results:
  "snd (check_package_structure fs_release) = Inr True"
  "snd (check_version_consistency fs_release) = Inr True"
  "snd (check_build_files fs_release) = Inr True"
  "snd (check_metadata fs_release) = Inr True"
proof -
  show "snd (check_package_structure fs_release) = Inr True"
    by (simp add: check_package_structure_def split_beta check_file_exists_snd package_files_def
        exists_def fs_release_def path_defs str_def)
  show "snd (check_version_consistency fs_release) = Inr True"
    by (simp add: check_version_consistency_def exists_def open_lines_def open_read_def fs_release_def
        init_text_def path_defs text_defs)
  show "snd (check_build_files fs_release) = Inr True"
    by (simp add: check_build_files_def split_beta check_file_exists_snd build_files_def
        exists_def fs_release_def path_defs str_def)
  show "snd (check_metadata fs_release) = Inr True"
    by (simp add: check_metadata_def scan_pyproject_def scan_setup_def exists_def open_read_def
        fs_release_def path_defs text_defs)
qed

lemma init_dir_results:
  "snd (check_package_structure fs_init_dir) = Inr False"
  "snd (check_version_consistency fs_init_dir) = Inl is_a_directory"
  "snd (check_build_files fs_init_dir) = Inr False"
  "snd (check_metadata fs_init_dir) = Inr True"
proof -
  show "snd (check_package_structure fs_init_dir) = Inr False"
    by (simp add: check_package_structure_def split_beta check_file_exists_snd package_files_def
        exists_def fs_init_dir_def path_defs str_def)
  show "snd (check_version_consistency fs_init_dir) = Inl is_a_directory"
    by (simp add: version_result_unopened open_lines_def fs_init_dir_def)
  show "snd (check_build_files fs_init_dir) = Inr False"
    by (simp add: check_build_files_def split_beta check_file_exists_snd build_files_def
        exists_def fs_init_dir_def path_defs str_def)
  show "snd (check_metadata fs_init_dir) = Inr True"
    by (simp add: check_metadata_def scan_pyproject_def scan_setup_def exists_def
        fs_init_dir_def path_defs str_def)
qed

text \<open>
  C1. The exit code of the runner is 1 exactly when at least one of the four checks
  (package structure, version consistency, build files, metadata) returned false or
  raised, and it is 0 otherwise.
\<close>

theorem main_exit_code:
  "snd (main fs) =
     (if failed (check_package_structure fs) \<or> failed (check_version_consistency fs)
         \<or> failed (check_build_files fs) \<or> failed (check_metadata fs)
      then 1 else 0)"
  by (simp add: main_exit checks_def run_check_recorded)

theorem main_exit_code_witness:
  "snd (main fs_release) = 0 \<and> snd (main fs_init_dir) = 1"
  using main_exit_code [of fs_release] main_exit_code [of fs_init_dir]
  by (simp add: failed_def release_results init_dir_results)

text \<open>
  C4. Take any ordered list of checks and any check of it whose function raises. The
  loop over the list ends with a list of results and what was printed, not with the
  exception: the checks before are run, then the raising check, for which the line
  reporting its exception is printed and the result false is recorded, and then every
  check after it is run as the loop runs it on its own, each of them with one recorded
  result.
\<close>

theorem raising_check_is_contained:
  assumes "cs = before @ (name, check_func) # after"
    and "snd (check_func fs) = Inl e"
  shows "run_checks fs cs
         = (fst (run_checks fs before) @ fst (check_func fs) @ [error_line name e]
              @ fst (run_checks fs after),
            snd (run_checks fs before) @ (name, False) # snd (run_checks fs after))
         \<and> map fst (snd (run_checks fs after)) = map fst after"
proof
  have "run_checks fs ((name, check_func) # after)
        = (fst (check_func fs) @ [error_line name e] @ fst (run_checks fs after),
           (name, False) # snd (run_checks fs after))"
    using assms(2) by (simp add: run_check_raised split_beta)
  then show "run_checks fs cs
         = (fst (run_checks fs before) @ fst (check_func fs) @ [error_line name e]
              @ fst (run_checks fs after),
            snd (run_checks fs before) @ (name, False) # snd (run_checks fs after))"
    unfolding assms(1) run_checks_append [of fs before] by simp
  show "map fst (snd (run_checks fs after)) = map fst after"
    by (rule run_checks_labels)
qed

theorem raising_check_is_contained_witness:
  "snd (check_version_consistency fs_init_dir) = Inl is_a_directory
   \<and> snd (run_checks fs_init_dir checks)
     = [([0x5305, 0x7ED3, 0x6784], False),
        ([0x7248, 0x672C, 0x4E00, 0x81F4, 0x6027], False),
        ([0x6784, 0x5EFA, 0x6587, 0x4EF6], False),
        ([0x5143, 0x6570, 0x636E], True)]"
proof -
  let ?before = "[([0x5305, 0x7ED3, 0x6784], check_package_structure)]"
  let ?after = "[([0x6784, 0x5EFA, 0x6587, 0x4EF6], check_build_files),
                 ([0x5143, 0x6570, 0x636E], check_metadata)]"
  have h1: "checks = ?before @ ([0x7248, 0x672C, 0x4E00, 0x81F4, 0x6027], check_version_consistency) # ?after"
    by (simp add: checks_def)
  have h2: "snd (check_version_consistency fs_init_dir) = Inl is_a_directory"
    by (rule init_dir_results)
  have b: "snd (run_checks fs_init_dir ?before) = [([0x5305, 0x7ED3, 0x6784], False)]"
    by (simp add: split_beta run_check_recorded failed_def init_dir_results)
  have a: "snd (run_checks fs_init_dir ?after)
           = [([0x6784, 0x5EFA, 0x6587, 0x4EF6], False), ([0x5143, 0x6570, 0x636E], True)]"
    by (simp add: split_beta run_check_recorded failed_def init_dir_results)
  have "snd (run_checks fs_init_dir checks)
        = snd (run_checks fs_init_dir ?before)
          @ ([0x7248, 0x672C, 0x4E00, 0x81F4, 0x6027], False) # snd (run_checks fs_init_dir ?after)"
    using raising_check_is_contained [OF h1 h2] by (simp only: snd_conv)
  then show ?thesis
    using h2 by (simp only: a b append.simps simp_thms)
qed

lemma run_check_printed:
  "fst (run_check fs (name, check_func))
   = fst (check_func fs)
     @ (case snd (check_func fs) of Inl e \<Rightarrow> [error_line name e] | Inr result \<Rightarrow> [])"
  by (cases "snd (check_func fs)") (simp_all add: run_check_raised run_check_returned)

text \<open>
  C8. The runner goes through the four checks in the order package structure, version
  consistency, build files, metadata. The list of results has exactly one entry for each
  check, in that order: the label of the check, with true when it returned true and false
  when it returned false or raised. What is printed is the banner, then for each check
  in that order what the check printed (followed by the line reporting its exception when
  it raised), then the heading of the summary, then one line of the report for each
  result in the same order, the label followed by a colon and the pass or the fail
  marker, and last the verdict. The exit code is returned together with this output.
\<close>

theorem main_report:
  "let l1 = [0x5305, 0x7ED3, 0x6784];
       l2 = [0x7248, 0x672C, 0x4E00, 0x81F4, 0x6027];
       l3 = [0x6784, 0x5EFA, 0x6587, 0x4EF6];
       l4 = [0x5143, 0x6570, 0x636E];
       r1 = check_package_structure fs;
       r2 = check_version_consistency fs;
       r3 = check_build_files fs;
       r4 = check_metadata fs;
       shown = (\<lambda>name r. fst r @ (case snd r of Inl e \<Rightarrow> [error_line name e] | Inr result \<Rightarrow> []));
       reported = (\<lambda>name r. name @ str '': ''
                     @ (if failed r then str ''[FAIL] '' @ [0x5931, 0x8D25]
                        else str ''[OK] '' @ [0x901A, 0x8FC7]))
   in snd (run_checks fs checks)
        = [(l1, \<not> failed r1), (l2, \<not> failed r2), (l3, \<not> failed r3), (l4, \<not> failed r4)]
      \<and> fst (main fs)
        = banner @ shown l1 r1 @ shown l2 r2 @ shown l3 r3 @ shown l4 r4
          @ summary_header
          @ [reported l1 r1, reported l2 r2, reported l3 r3, reported l4 r4]
          @ verdict (snd (main fs) = 0)
      \<and> snd (main fs) = (if failed r1 \<or> failed r2 \<or> failed r3 \<or> failed r4 then 1 else 0)"
proof -
  have results: "snd (run_checks fs checks)
        = [([0x5305, 0x7ED3, 0x6784], \<not> failed (check_package_structure fs)),
           ([0x7248, 0x672C, 0x4E00, 0x81F4, 0x6027], \<not> failed (check_version_consistency fs)),
           ([0x6784, 0x5EFA, 0x6587, 0x4EF6], \<not> failed (check_build_files fs)),
           ([0x5143, 0x6570, 0x636E], \<not> failed (check_metadata fs))]"
    by (simp only: run_checks_results) (simp add: checks_def run_check_recorded)
  have exit: "snd (main fs)
        = (if failed (check_package_structure fs) \<or> failed (check_version_consistency fs)
              \<or> failed (check_build_files fs) \<or> failed (check_metadata fs)
           then 1 else 0)"
    by (simp add: main_exit checks_def run_check_recorded)
  have printed: "fst (main fs)
        = banner @ concat (map (\<lambda>c. fst (run_check fs c)) checks) @ summary_header
          @ map (\<lambda>c. report_line (snd (run_check fs c))) checks
          @ verdict (snd (main fs) = 0)"
    by (simp add: main_printed main_exit)
  show ?thesis
    unfolding Let_def results exit printed
    by (simp add: checks_def run_check_printed run_check_recorded report_line_def)
qed

theorem main_report_witness:
  "snd (run_checks fs_release checks)
   = [([0x5305, 0x7ED3, 0x6784], True),
      ([0x7248, 0x672C, 0x4E00, 0x81F4, 0x6027], True),
      ([0x6784, 0x5EFA, 0x6587, 0x4EF6], True),
      ([0x5143, 0x6570, 0x636E], True)]
   \<and> fst (main fs_release)
     = banner
       @ fst (check_package_structure fs_release) @ fst (check_version_consistency fs_release)
       @ fst (check_build_files fs_release) @ fst (check_metadata fs_release)
       @ summary_header
       @ [[0x5305, 0x7ED3, 0x6784] @ str '': [OK] '' @ [0x901A, 0x8FC7],
          [0x7248, 0x672C, 0x4E00, 0x81F4, 0x6027] @ str '': [OK] '' @ [0x901A, 0x8FC7],
          [0x6784, 0x5EFA, 0x6587, 0x4EF6] @ str '': [OK] '' @ [0x901A, 0x8FC7],
          [0x5143, 0x6570, 0x636E] @ str '': [OK] '' @ [0x901A, 0x8FC7]]
       @ verdict True
   \<and> snd (main fs_release) = 0"
  using main_report [of fs_release]
  by (simp add: Let_def failed_def release_results str_def)

end
